theory Spec2Isabelle
  imports Complex_Main "HOL-Library.Word"
begin

section \<open>GLSL built-ins used by the TV effect's fragment snippet\<close>

text \<open>
  The fragment code of \<^verbatim>\<open>vfunc_build_pipeline\<close> (TVEffect.js) is GLSL. Its \<^verbatim>\<open>float\<close>
  values are modelled as real numbers; the built-in functions follow the GLSL
  specification: \<^verbatim>\<open>clamp(x, a, b) = min(max(x, a), b)\<close>, \<^verbatim>\<open>smoothstep\<close> is the Hermite
  interpolation of the clamped, normalised argument, and \<^verbatim>\<open>mix(x, y, a) = x(1-a) + ya\<close>.
\<close>

definition clamp :: "real \<Rightarrow> real \<Rightarrow> real \<Rightarrow> real" where
  "clamp x minVal maxVal = min (max x minVal) maxVal"

definition smoothstep :: "real \<Rightarrow> real \<Rightarrow> real \<Rightarrow> real" where
  "smoothstep edge0 edge1 x =
     (let t = clamp ((x - edge0) / (edge1 - edge0)) 0 1 in t * t * (3 - 2 * t))"

definition mix :: "real \<Rightarrow> real \<Rightarrow> real \<Rightarrow> real" where
  "mix x y a = x * (1 - a) + y * a"

section \<open>The TV effect's shader (TVEffect.js, vfunc_build_pipeline)\<close>

subsection \<open>Declarations\<close>

definition BLUR_WIDTH :: real where "BLUR_WIDTH = 0.01"
definition TB_TIME :: real where "TB_TIME = 0.7"
definition LR_TIME :: real where "LR_TIME = 0.4"
definition LR_DELAY :: real where "LR_DELAY = 0.6"
definition FF_TIME :: real where "FF_TIME = 0.1"

subsection \<open>Code, one definition per assignment of the snippet\<close>

text \<open>\<^verbatim>\<open>float progress = uForOpening ? 1.0-uProgress : uProgress;\<close>\<close>

definition progress :: "bool \<Rightarrow> real \<Rightarrow> real" where
  "progress uForOpening uProgress = (if uForOpening then 1.0 - uProgress else uProgress)"

text \<open>The arguments handed to the three outer \<^verbatim>\<open>smoothstep\<close> calls: the local phase progress.\<close>

definition tbLocal :: "real \<Rightarrow> real" where
  "tbLocal p = clamp (p / TB_TIME) 0 1"

definition lrLocal :: "real \<Rightarrow> real" where
  "lrLocal p = clamp ((p - LR_DELAY) / LR_TIME) 0 1"

definition ffLocal :: "real \<Rightarrow> real" where
  "ffLocal p = clamp ((p - 1.0 + FF_TIME) / FF_TIME) 0 1"

definition tbProgress :: "real \<Rightarrow> real" where
  "tbProgress p = smoothstep 0 1 (tbLocal p)"

definition lrProgress :: "real \<Rightarrow> real" where
  "lrProgress p = smoothstep 0 1 (lrLocal p)"

definition ffProgress :: "real \<Rightarrow> real" where
  "ffProgress p = smoothstep 0 1 (ffLocal p)"

text \<open>
  \<^verbatim>\<open>float tb = cogl_tex_coord_in[0].t * 2; tb = tb < 1 ? tb : 2 - tb;\<close> and the same for
  \<^verbatim>\<open>lr\<close> with the \<^verbatim>\<open>s\<close> coordinate.
\<close>

definition tb :: "real \<Rightarrow> real" where
  "tb t = (let tb0 = t * 2 in if tb0 < 1 then tb0 else 2 - tb0)"

definition lr :: "real \<Rightarrow> real" where
  "lr s = (let lr0 = s * 2 in if lr0 < 1 then lr0 else 2 - lr0)"

text \<open>The alpha masks; the first two take the eased phase progress and the gradient.\<close>

definition tbMask :: "real \<Rightarrow> real \<Rightarrow> real" where
  "tbMask tbProgress' tb' = 1 - smoothstep 0 1 (clamp ((tbProgress' - tb') / BLUR_WIDTH) 0 1)"

definition lrMask :: "real \<Rightarrow> real \<Rightarrow> real" where
  "lrMask lrProgress' lr' = 1 - smoothstep 0 1 (clamp ((lrProgress' - lr') / BLUR_WIDTH) 0 1)"

definition ffMask :: "real \<Rightarrow> real" where
  "ffMask ffProgress' = 1 - smoothstep 0 1 ffProgress'"

text \<open>\<^verbatim>\<open>float mask = tbMask * lrMask * ffMask;\<close> for the texture coordinate \<open>(s, t)\<close>.\<close>

definition mask_tv :: "bool \<Rightarrow> real \<Rightarrow> real \<times> real \<Rightarrow> real" where
  "mask_tv uForOpening uProgress st =
     (let p = progress uForOpening uProgress
      in tbMask (tbProgress p) (tb (snd st)) * lrMask (lrProgress p) (lr (fst st))
           * ffMask (ffProgress p))"

text \<open>
  Colours: a \<^verbatim>\<open>vec4\<close> with the swizzles \<^verbatim>\<open>.rgb\<close> and \<^verbatim>\<open>.a\<close> the snippet uses (the field
  \<open>alpha\<close> is \<^verbatim>\<open>.a\<close>). Dividing by zero has an undefined result in GLSL; the
  component-wise division is therefore partial here.
\<close>

type_synonym vec3 = "real \<times> real \<times> real"

record vec4 =
  rgb :: vec3
  alpha :: real

definition vec3_div :: "vec3 \<Rightarrow> real \<Rightarrow> vec3 option" where
  "vec3_div v d =
     (case v of (x, y, z) \<Rightarrow> if d = 0 then None else Some (x / d, y / d, z / d))"

definition vec3_scale :: "vec3 \<Rightarrow> real \<Rightarrow> vec3" where
  "vec3_scale v k = (case v of (x, y, z) \<Rightarrow> (x * k, y * k, z * k))"

definition vec3_mix :: "vec3 \<Rightarrow> vec3 \<Rightarrow> real \<Rightarrow> vec3" where
  "vec3_mix v w k =
     (case v of (x, y, z) \<Rightarrow> case w of (x', y', z') \<Rightarrow> (mix x x' k, mix y y' k, mix z z' k))"

text \<open>\<^verbatim>\<open>if (cogl_color_out.a > 0) { cogl_color_out.rgb /= cogl_color_out.a; }\<close>\<close>

definition to_straight :: "vec4 \<Rightarrow> vec4 option" where
  "to_straight c =
     (if alpha c > 0
      then (case vec3_div (rgb c) (alpha c) of
              None \<Rightarrow> None
            | Some v \<Rightarrow> Some (c\<lparr>rgb := v\<rparr>))
      else Some c)"

text \<open>
  \<^verbatim>\<open>cogl_color_out.rgb = mix(cogl_color_out.rgb, uColor * cogl_color_out.a,
  smoothstep(0, 1, progress));\<close>
\<close>

definition blend :: "vec3 \<Rightarrow> real \<Rightarrow> vec4 \<Rightarrow> vec4" where
  "blend uColor p c = c\<lparr>rgb := vec3_mix (rgb c) (vec3_scale uColor (alpha c)) (smoothstep 0 1 p)\<rparr>"

text \<open>\<^verbatim>\<open>cogl_color_out.a *= mask;\<close>\<close>

definition apply_mask :: "real \<Rightarrow> vec4 \<Rightarrow> vec4" where
  "apply_mask m c = c\<lparr>alpha := alpha c * m\<rparr>"

text \<open>
  The whole snippet: the value of \<^verbatim>\<open>cogl_color_out\<close> it leaves for the sampler
  \<open>uTexture\<close> at the texture coordinate \<open>st\<close>, or \<open>None\<close> if a division by zero was
  executed.
\<close>

definition main_tv :: "bool \<Rightarrow> real \<Rightarrow> vec3 \<Rightarrow> (real \<times> real \<Rightarrow> vec4) \<Rightarrow> real \<times> real \<Rightarrow> vec4 option" where
  "main_tv uForOpening uProgress uColor uTexture st =
     (let p = progress uForOpening uProgress;
          m = mask_tv uForOpening uProgress st
      in case to_straight (uTexture st) of
           None \<Rightarrow> None
         | Some c \<Rightarrow> Some (apply_mask m (blend uColor p c)))"

section \<open>The TV effect's shader pool (TVEffect.js)\<close>

text \<open>
  What the module takes from its host: the settings object with its typed getters, the
  actor, and Clutter's colour parser, whose second result component is the colour.
\<close>

record clutter_color =
  red :: "8 word"
  green :: "8 word"
  blue :: "8 word"

record clutter =
  Color_from_string :: "string \<Rightarrow> bool \<times> clutter_color"

record gsettings =
  get_boolean :: "string \<Rightarrow> bool"
  get_double :: "string \<Rightarrow> real"
  get_int :: "string \<Rightarrow> int"
  get_string :: "string \<Rightarrow> string"

record actor =
  height :: real

text \<open>
  An instance of \<^verbatim>\<open>ShaderClass\<close>. \<open>ident\<close> is the object's identity; \<open>u_uColor\<close> is the
  field \<^verbatim>\<open>_uColor\<close>; \<open>uniforms\<close> is the program's uniform state, by location. A uniform's
  location is modelled as its name.
\<close>

type_synonym location = string

record shader =
  ident :: nat
  u_uColor :: location
  uniforms :: "location \<rightharpoonup> real list"

definition get_uniform_location :: "string \<Rightarrow> location" where
  "get_uniform_location name = name"

definition set_uniform_float :: "location \<Rightarrow> nat \<Rightarrow> real list \<Rightarrow> shader \<Rightarrow> shader" where
  "set_uniform_float loc n vals this = this\<lparr>uniforms := (uniforms this)(loc \<mapsto> vals)\<rparr>"

text \<open>\<^verbatim>\<open>new ShaderClass()\<close>, that is \<^verbatim>\<open>_init\<close>, for the object of identity \<open>n\<close>.\<close>

definition new_ShaderClass :: "nat \<Rightarrow> shader" where
  "new_ShaderClass n =
     \<lparr>ident = n, u_uColor = get_uniform_location ''uColor'', uniforms = Map.empty\<rparr>"

definition setUniforms :: "clutter \<Rightarrow> actor \<Rightarrow> gsettings \<Rightarrow> bool \<Rightarrow> shader \<Rightarrow> shader" where
  "setUniforms Clutter act settings forOpening this =
     (let c = snd (Color_from_string Clutter (get_string settings ''tv-effect-color''))
      in set_uniform_float (u_uColor this) 3
           [real (unat (red c)) / 255, real (unat (green c)) / 255, real (unat (blue c)) / 255]
           this)"

text \<open>
  The module's state: \<^verbatim>\<open>ShaderClass\<close> (null outside the shell process),
  \<^verbatim>\<open>freeShaders\<close>, and the number of shader objects constructed so far, from which a new
  object takes its identity.
\<close>

datatype shader_class = Null | Registered

datatype js_error = TypeError

record module =
  ShaderClass :: shader_class
  freeShaders :: "shader list"
  created :: nat

definition module_init :: "bool \<Rightarrow> module" where
  "module_init isInShellProcess =
     \<lparr>ShaderClass = (if isInShellProcess then Registered else Null),
      freeShaders = [], created = 0\<rparr>"

text \<open>\<^verbatim>\<open>Array.pop\<close> takes the last element, \<^verbatim>\<open>Array.push\<close> appends.\<close>

definition getShader :: "clutter \<Rightarrow> actor \<Rightarrow> gsettings \<Rightarrow> bool \<Rightarrow> module \<Rightarrow> js_error + shader \<times> module" where
  "getShader Clutter act settings forOpening m =
     (if length (freeShaders m) = 0
      then (case ShaderClass m of
              Null \<Rightarrow> Inl TypeError
            | Registered \<Rightarrow>
                Inr (setUniforms Clutter act settings forOpening (new_ShaderClass (created m)),
                     m\<lparr>created := Suc (created m)\<rparr>))
      else Inr (setUniforms Clutter act settings forOpening (last (freeShaders m)),
                m\<lparr>freeShaders := butlast (freeShaders m)\<rparr>))"

definition free :: "shader \<Rightarrow> module \<Rightarrow> module" where
  "free this m = m\<lparr>freeShaders := freeShaders m @ [this]\<rparr>"

definition cleanUp :: "module \<Rightarrow> module" where
  "cleanUp m = m\<lparr>freeShaders := []\<rparr>"

text \<open>
  The host draws a frame with an instance: the snippet runs with the instance's stored
  \<^verbatim>\<open>uColor\<close> (a uniform never set reads as zero).
\<close>

definition uColor_of :: "shader \<Rightarrow> vec3" where
  "uColor_of this =
     (case uniforms this (get_uniform_location ''uColor'') of
        Some [r, g, b] \<Rightarrow> (r, g, b)
      | _ \<Rightarrow> (0, 0, 0))"

definition paint :: "shader \<Rightarrow> bool \<Rightarrow> real \<Rightarrow> (real \<times> real \<Rightarrow> vec4) \<Rightarrow> real \<times> real \<Rightarrow> vec4 option" where
  "paint this uForOpening uProgress uTexture st =
     main_tv uForOpening uProgress (uColor_of this) uTexture st"

text \<open>
  A sequence of calls made by the host, run from a module state; the result lists the
  instances the \<^verbatim>\<open>getShader\<close> calls returned, in order.
\<close>

datatype call = GetShader actor gsettings bool | Free shader

fun exec :: "clutter \<Rightarrow> call list \<Rightarrow> module \<Rightarrow> js_error + shader list \<times> module" where
  "exec Clutter [] m = Inr ([], m)"
| "exec Clutter (GetShader act settings forOpening # cs) m =
     (case getShader Clutter act settings forOpening m of
        Inl e \<Rightarrow> Inl e
      | Inr (x, m1) \<Rightarrow>
          (case exec Clutter cs m1 of
             Inl e \<Rightarrow> Inl e
           | Inr (xs, m2) \<Rightarrow> Inr (x # xs, m2)))"
| "exec Clutter (Free x # cs) m = exec Clutter cs (free x m)"

text \<open>
  The pool is well formed when the free list holds each instance at most once and only
  instances that were constructed.
\<close>

definition pool_inv :: "module \<Rightarrow> bool" where
  "pool_inv m \<longleftrightarrow>
     distinct (map ident (freeShaders m)) \<and>
     list_all (\<lambda>s. ident s < created m \<and> u_uColor s = get_uniform_location ''uColor'')
       (freeShaders m)"

text \<open>
  The host frees only instances it holds: \<open>held\<close> lists the identities of the instances
  acquired and not yet freed; each \<^verbatim>\<open>free\<close> of the sequence is of one of them, and each
  \<^verbatim>\<open>getShader\<close> adds the instance it returns.
\<close>

fun frees_held :: "clutter \<Rightarrow> call list \<Rightarrow> module \<Rightarrow> nat list \<Rightarrow> bool" where
  "frees_held Clutter [] m held = True"
| "frees_held Clutter (GetShader act settings forOpening # cs) m held =
     (case getShader Clutter act settings forOpening m of
        Inl e \<Rightarrow> True
      | Inr (x, m1) \<Rightarrow> frees_held Clutter cs m1 (ident x # held))"
| "frees_held Clutter (Free x # cs) m held =
     (ident x \<in> set held \<and> frees_held Clutter cs (free x m) (removeAll (ident x) held))"

section \<open>The Doom effect's begin-animation handler (Doom.js)\<close>

text \<open>
  JavaScript numbers, as far as the handler needs them: finite values (as reals), the two
  infinities and NaN. Dividing one finite number by another gives an infinity or NaN when
  the divisor is zero; the sign of a zero is not modelled (heights are not negative).
\<close>

datatype jsnum = Fin real | PInf | NInf | NaN

definition js_div :: "real \<Rightarrow> real \<Rightarrow> jsnum" where
  "js_div x y =
     (if y \<noteq> 0 then Fin (x / y) else if 0 < x then PInf else if x < 0 then NInf else NaN)"

fun Math_max :: "jsnum \<Rightarrow> jsnum \<Rightarrow> jsnum" where
  "Math_max NaN _ = NaN"
| "Math_max _ NaN = NaN"
| "Math_max PInf _ = PInf"
| "Math_max _ PInf = PInf"
| "Math_max NInf y = y"
| "Math_max x NInf = x"
| "Math_max (Fin x) (Fin y) = Fin (max x y)"

fun js_sign :: "jsnum \<Rightarrow> real" where
  "js_sign (Fin x) = sgn x"
| "js_sign PInf = 1"
| "js_sign NInf = - 1"
| "js_sign NaN = 0"

fun js_mul :: "jsnum \<Rightarrow> jsnum \<Rightarrow> jsnum" where
  "js_mul NaN _ = NaN"
| "js_mul _ NaN = NaN"
| "js_mul (Fin x) (Fin y) = Fin (x * y)"
| "js_mul x y =
     (let s = js_sign x * js_sign y
      in if s = 0 then NaN else if 0 < s then PInf else NInf)"

record stage =
  stage_height :: real

text \<open>
  The shader object the factory hands to the callback: the four location fields the
  callback stores on it, and the program's uniform state by location.
\<close>

record doom_shader =
  u_uActorScale :: location
  u_uHorizontalScale :: location
  u_uVerticalScale :: location
  u_uPixelSize :: location
  doom_uniforms :: "location \<rightharpoonup> jsnum list"

definition doom_set_uniform_float :: "location \<Rightarrow> nat \<Rightarrow> jsnum list \<Rightarrow> doom_shader \<Rightarrow> doom_shader" where
  "doom_set_uniform_float loc n vals sh = sh\<lparr>doom_uniforms := (doom_uniforms sh)(loc \<mapsto> vals)\<rparr>"

text \<open>The first part of the callback: store the uniform locations of a new shader.\<close>

definition store_locations :: "doom_shader \<Rightarrow> doom_shader" where
  "store_locations sh =
     sh\<lparr>u_uActorScale := get_uniform_location ''uActorScale'',
        u_uHorizontalScale := get_uniform_location ''uHorizontalScale'',
        u_uVerticalScale := get_uniform_location ''uVerticalScale'',
        u_uPixelSize := get_uniform_location ''uPixelSize''\<rparr>"

text \<open>The handler connected to \<^verbatim>\<open>begin-animation\<close>; \<open>global_stage\<close> is \<^verbatim>\<open>global.stage\<close>.\<close>

definition begin_animation :: "stage \<Rightarrow> doom_shader \<Rightarrow> gsettings \<Rightarrow> bool \<Rightarrow> actor \<Rightarrow> doom_shader" where
  "begin_animation global_stage sh settings forOpening act =
     (let actorScale =
            js_mul (Fin 2.0) (Math_max (Fin 1.0) (js_div (stage_height global_stage) (height act)));
          testMode = get_boolean settings ''test-mode'';
          sh1 = doom_set_uniform_float (u_uActorScale sh) 1
                  [if testMode then Fin 1.0 else actorScale] sh;
          sh2 = doom_set_uniform_float (u_uHorizontalScale sh1) 1
                  [Fin (get_double settings ''doom-horizontal-scale'')] sh1;
          sh3 = doom_set_uniform_float (u_uVerticalScale sh2) 1
                  [if testMode then Fin 500.0
                   else Fin (get_double settings ''doom-vertical-scale'')] sh2
      in doom_set_uniform_float (u_uPixelSize sh3) 1
           [Fin (of_int (get_int settings ''doom-pixel-size''))] sh3)"

section \<open>The phase progress in the specification's words\<close>

text \<open>
  The specification's \<open>local = clamp((progress - start) / duration, 0, 1)\<close>, to be
  compared with the three expressions of the snippet.
\<close>

definition local_phase_spec :: "real \<Rightarrow> real \<Rightarrow> real \<Rightarrow> real" where
  "local_phase_spec start duration p = clamp ((p - start) / duration) 0 1"

section \<open>Concrete inputs\<close>

text \<open>Inputs at which the theorems below are evaluated.\<close>

definition demo_clutter :: clutter where
  "demo_clutter = \<lparr>Color_from_string = (\<lambda>s. (True, \<lparr>red = 255, green = 0, blue = 51\<rparr>))\<rparr>"

definition demo_settings :: gsettings where
  "demo_settings =
     \<lparr>get_boolean = (\<lambda>k. False), get_double = (\<lambda>k. 1), get_int = (\<lambda>k. 4),
      get_string = (\<lambda>k. ''#ff0033'')\<rparr>"

definition demo_actor :: actor where
  "demo_actor = \<lparr>height = 400\<rparr>"

text \<open>An instance left in the pool by an earlier transition, its \<^verbatim>\<open>uColor\<close> set to blue.\<close>

definition demo_used :: shader where
  "demo_used = set_uniform_float ''uColor'' 3 [0, 0, 1] (new_ShaderClass 0)"

definition demo_module :: module where
  "demo_module = \<lparr>ShaderClass = Registered, freeShaders = [demo_used], created = 1\<rparr>"

definition demo_fresh :: shader where
  "demo_fresh = setUniforms demo_clutter demo_actor demo_settings True (new_ShaderClass 1)"

definition demo_calls :: "call list" where
  "demo_calls =
     [GetShader demo_actor demo_settings True, Free demo_fresh,
      GetShader demo_actor demo_settings False]"

definition demo_texture :: "real \<times> real \<Rightarrow> vec4" where
  "demo_texture st = \<lparr>rgb = (1/4, 1/4, 1/4), alpha = 1/2\<rparr>"

definition demo_stage :: stage where
  "demo_stage = \<lparr>stage_height = 1080\<rparr>"

definition demo_test_settings :: gsettings where
  "demo_test_settings = demo_settings\<lparr>get_boolean := (\<lambda>k. k = ''test-mode'')\<rparr>"

definition demo_doom_shader :: doom_shader where
  "demo_doom_shader =
     store_locations \<lparr>u_uActorScale = [], u_uHorizontalScale = [], u_uVerticalScale = [],
       u_uPixelSize = [], doom_uniforms = Map.empty\<rparr>"

section \<open>Facts about the built-ins\<close>

lemma clamp_unit_bounds: "0 \<le> clamp x 0 1 \<and> clamp x 0 1 \<le> 1"
  by (simp add: clamp_def)

lemma clamp_mono: "x \<le> y \<Longrightarrow> clamp x a b \<le> clamp y a b"
  by (auto simp: clamp_def min_def max_def)

lemma clamp_nonpos: "x \<le> 0 \<Longrightarrow> clamp x 0 1 = 0"
  by (simp add: clamp_def)

lemma clamp_ge_one: "1 \<le> x \<Longrightarrow> clamp x 0 1 = 1"
  by (simp add: clamp_def)

lemma smoothstep_unit_zero: "smoothstep 0 1 0 = 0"
  by (simp add: smoothstep_def clamp_def)

lemma smoothstep_unit_one: "smoothstep 0 1 1 = 1"
  by (simp add: smoothstep_def clamp_def)

lemma div_blur_ge_one: "BLUR_WIDTH \<le> x \<Longrightarrow> 1 \<le> x / BLUR_WIDTH"
  by (simp add: BLUR_WIDTH_def)

lemma div_blur_nonpos: "x \<le> 0 \<Longrightarrow> x / BLUR_WIDTH \<le> 0"
  by (simp add: BLUR_WIDTH_def)

section \<open>The per-phase masks\<close>

text \<open>
  C1, as stated: at gradient 0 the mask is 1 for every eased progress above 0, and at
  gradient 1 with eased progress 1 it is 0. The snippet computes the opposite values: at
  eased progress 1 the mask is 0 at gradient 0 and 1 at gradient 1.
\<close>

theorem mask_edge_centre_counterexample:
  "(0::real) < 1 \<and> tbMask 1 0 \<noteq> 1 \<and> lrMask 1 0 \<noteq> 1 \<and> tbMask 1 1 \<noteq> 0 \<and> lrMask 1 1 \<noteq> 0"
  by (simp add: tbMask_def lrMask_def smoothstep_def clamp_def BLUR_WIDTH_def)

text \<open>
  C1, amended: at gradient 0 the mask is 0 for every eased progress of at least
  \<open>BLUR_WIDTH\<close>, and 1 when the eased progress is at most 0. At gradient 1 with eased
  progress 1 the mask is 1.
\<close>

theorem mask_edge_centre:
  "(eased \<le> 0 \<longrightarrow> tbMask eased 0 = 1 \<and> lrMask eased 0 = 1) \<and>
   (BLUR_WIDTH \<le> eased \<longrightarrow> tbMask eased 0 = 0 \<and> lrMask eased 0 = 0) \<and>
   tbMask 1 1 = 1 \<and> lrMask 1 1 = 1"
proof (intro conjI impI)
  assume "eased \<le> 0"
  then have "clamp ((eased - 0) / BLUR_WIDTH) 0 1 = 0"
    by (simp add: clamp_nonpos div_blur_nonpos)
  then show "tbMask eased 0 = 1" "lrMask eased 0 = 1"
    by (simp_all add: tbMask_def lrMask_def smoothstep_unit_zero)
next
  assume "BLUR_WIDTH \<le> eased"
  then have "clamp ((eased - 0) / BLUR_WIDTH) 0 1 = 1"
    by (simp add: clamp_ge_one div_blur_ge_one)
  then show "tbMask eased 0 = 0" "lrMask eased 0 = 0"
    by (simp_all add: tbMask_def lrMask_def smoothstep_unit_one)
next
  show "tbMask 1 1 = 1" "lrMask 1 1 = 1"
    by (simp_all add: tbMask_def lrMask_def smoothstep_def clamp_def)
qed

theorem mask_edge_centre_witness:
  "BLUR_WIDTH \<le> 1/2 \<and> tbMask (1/2) 0 = 0 \<and> lrMask (1/2) 0 = 0 \<and>
   (0::real) \<le> 0 \<and> tbMask 0 0 = 1 \<and> lrMask 0 0 = 1 \<and>
   tbMask 1 1 = 1 \<and> lrMask 1 1 = 1"
  using mask_edge_centre [of "1/2"] mask_edge_centre [of 0]
  by (simp add: BLUR_WIDTH_def)

section \<open>The local phase progress\<close>

text \<open>
  C5: for a phase of positive duration the local progress, as a function of the forward
  progress, is monotonically non-decreasing and lies in \<open>[0, 1]\<close>; the three expressions
  of the snippet are its instances for the phases (0, 0.7), (0.6, 0.4) and (0.9, 0.1).
\<close>

theorem local_progress_monotone_bounded:
  "(0 < duration \<longrightarrow> p \<le> q \<longrightarrow>
      local_phase_spec start duration p \<le> local_phase_spec start duration q) \<and>
   0 \<le> local_phase_spec start duration p \<and> local_phase_spec start duration p \<le> 1 \<and>
   tbLocal p = local_phase_spec 0 0.7 p \<and>
   lrLocal p = local_phase_spec 0.6 0.4 p \<and>
   ffLocal p = local_phase_spec 0.9 0.1 p \<and>
   (p \<le> q \<longrightarrow> tbLocal p \<le> tbLocal q \<and> lrLocal p \<le> lrLocal q \<and> ffLocal p \<le> ffLocal q) \<and>
   0 \<le> tbLocal p \<and> tbLocal p \<le> 1 \<and> 0 \<le> lrLocal p \<and> lrLocal p \<le> 1 \<and>
   0 \<le> ffLocal p \<and> ffLocal p \<le> 1"
proof -
  have mono: "local_phase_spec s d x \<le> local_phase_spec s d y" if "0 < d" "x \<le> y" for s d x y
  proof -
    from that have "(x - s) / d \<le> (y - s) / d"
      by (simp add: divide_right_mono)
    then show ?thesis
      unfolding local_phase_spec_def by (rule clamp_mono)
  qed
  have bounds: "0 \<le> local_phase_spec s d x \<and> local_phase_spec s d x \<le> 1" for s d x
    unfolding local_phase_spec_def by (rule clamp_unit_bounds)
  have tb: "tbLocal x = local_phase_spec 0 0.7 x" for x
    by (simp add: tbLocal_def local_phase_spec_def TB_TIME_def)
  have lr: "lrLocal x = local_phase_spec 0.6 0.4 x" for x
    by (simp add: lrLocal_def local_phase_spec_def LR_DELAY_def LR_TIME_def)
  have ff: "ffLocal x = local_phase_spec 0.9 0.1 x" for x
    by (simp add: ffLocal_def local_phase_spec_def FF_TIME_def)
  show ?thesis
    using mono [of duration p q start] bounds [of start duration p]
      mono [of "0.7" p q 0] mono [of "0.4" p q "0.6"] mono [of "0.1" p q "0.9"]
      bounds [of 0 "0.7" p] bounds [of "0.6" "0.4" p] bounds [of "0.9" "0.1" p]
    by (simp add: tb lr ff)
qed

theorem local_progress_monotone_bounded_witness:
  "(0::real) < 0.4 \<and> (0.7::real) \<le> 0.8 \<and>
   local_phase_spec 0.6 0.4 0.7 \<le> local_phase_spec 0.6 0.4 0.8 \<and>
   tbLocal 0.7 \<le> tbLocal 0.8 \<and> lrLocal 0.7 \<le> lrLocal 0.8 \<and> ffLocal 0.7 \<le> ffLocal 0.8 \<and>
   lrLocal 0.7 = 1/4 \<and> lrLocal 0.8 = 1/2"
  using local_progress_monotone_bounded [of "0.4" "0.7" "0.8" "0.6"]
  by (simp add: lrLocal_def clamp_def LR_DELAY_def LR_TIME_def)

section \<open>The final mask and the output colour\<close>

lemma tb_nonneg: "0 \<le> t \<Longrightarrow> t \<le> 1 \<Longrightarrow> 0 \<le> tb t"
  by (simp add: tb_def Let_def)

lemma lr_nonneg: "0 \<le> s \<Longrightarrow> s \<le> 1 \<Longrightarrow> 0 \<le> lr s"
  by (simp add: lr_def Let_def)

lemma phase_progress_at_start: "tbProgress 0 = 0 \<and> lrProgress 0 = 0 \<and> ffProgress 0 = 0"
  by (simp add: tbProgress_def lrProgress_def ffProgress_def tbLocal_def lrLocal_def ffLocal_def
      smoothstep_def clamp_def TB_TIME_def LR_TIME_def LR_DELAY_def FF_TIME_def)

lemma ffProgress_at_end: "ffProgress 1 = 1"
  by (simp add: ffProgress_def ffLocal_def smoothstep_def clamp_def FF_TIME_def)

lemma wipe_mask_before_boundary:
  assumes "e \<le> g"
  shows "tbMask e g = 1" and "lrMask e g = 1"
proof -
  from assms have "clamp ((e - g) / BLUR_WIDTH) 0 1 = 0"
    by (simp add: clamp_nonpos div_blur_nonpos)
  then show "tbMask e g = 1" and "lrMask e g = 1"
    by (simp_all add: tbMask_def lrMask_def smoothstep_unit_zero)
qed

text \<open>
  C2: the final mask of an opening transition at progress \<open>p\<close> is the final mask of a
  closing transition at progress \<open>1 - p\<close>, at every texture coordinate, and so is the
  output colour: mask and colour depend on \<open>uProgress\<close> and \<open>uForOpening\<close> only through
  the scalar \<open>progress\<close>.
\<close>

theorem opening_is_reversed_closing:
  "mask_tv True p st = mask_tv False (1 - p) st \<and>
   main_tv True p uColor uTexture st = main_tv False (1 - p) uColor uTexture st \<and>
   (progress fo p = progress fo' p' \<longrightarrow>
      mask_tv fo p st = mask_tv fo' p' st \<and>
      main_tv fo p uColor uTexture st = main_tv fo' p' uColor uTexture st)"
  by (simp add: mask_tv_def main_tv_def progress_def Let_def)

theorem opening_is_reversed_closing_witness:
  "progress True 0.3 = progress False 0.7 \<and>
   mask_tv True 0.3 (0.5, 0.1) = mask_tv False 0.7 (0.5, 0.1) \<and>
   main_tv True 0.3 (1, 0, 0) (\<lambda>_. \<lparr>rgb = (1/4, 1/4, 1/4), alpha = 1/2\<rparr>) (0.5, 0.1) =
   main_tv False 0.7 (1, 0, 0) (\<lambda>_. \<lparr>rgb = (1/4, 1/4, 1/4), alpha = 1/2\<rparr>) (0.5, 0.1)"
  using opening_is_reversed_closing [of "0.3" "(0.5, 0.1)" "(1, 0, 0)"
      "\<lambda>_. \<lparr>rgb = (1/4, 1/4, 1/4), alpha = 1/2\<rparr>" True False "0.7"]
  by (simp add: progress_def)

text \<open>
  C3: for a closing transition with the effect's constants, the final mask
  \<open>tbMask * lrMask * ffMask\<close> is 1 at progress 0 at every texture coordinate of the
  unit square, and 0 at progress 1 at every texture coordinate.
\<close>

theorem closing_mask_endpoints:
  "(0 \<le> fst st \<and> fst st \<le> 1 \<and> 0 \<le> snd st \<and> snd st \<le> 1 \<longrightarrow> mask_tv False 0 st = 1) \<and>
   mask_tv False 1 st = 0"
proof (intro conjI impI)
  assume "0 \<le> fst st \<and> fst st \<le> 1 \<and> 0 \<le> snd st \<and> snd st \<le> 1"
  then have "0 \<le> tb (snd st)" and "0 \<le> lr (fst st)"
    by (simp_all add: tb_nonneg lr_nonneg)
  then have "tbMask 0 (tb (snd st)) = 1" and "lrMask 0 (lr (fst st)) = 1"
    by (simp_all add: wipe_mask_before_boundary)
  moreover have "ffMask 0 = 1"
    by (simp add: ffMask_def smoothstep_unit_zero)
  ultimately show "mask_tv False 0 st = 1"
    by (simp add: mask_tv_def progress_def phase_progress_at_start)
next
  have "ffMask 1 = 0"
    by (simp add: ffMask_def smoothstep_unit_one)
  then show "mask_tv False 1 st = 0"
    by (simp add: mask_tv_def progress_def ffProgress_at_end)
qed

theorem closing_mask_endpoints_witness:
  "(0::real) \<le> fst (0.3, 0.2) \<and> fst (0.3::real, 0.2::real) \<le> 1 \<and>
   (0::real) \<le> snd (0.3::real, 0.2) \<and> snd (0.3::real, 0.2::real) \<le> 1 \<and>
   mask_tv False 0 (0.3, 0.2) = 1 \<and> mask_tv False 1 (0.3, 0.2) = 0"
  using closing_mask_endpoints [of "(0.3, 0.2)"]
  by simp

text \<open>
  C7: the snippet never divides by zero. Its output colour is the blend of the sampled
  colour, divided by the sampled alpha once if that alpha is positive and left as it is
  otherwise, with the tint; the division comes before the blend and nowhere else.
\<close>

theorem straight_alpha_once_before_blend:
  "main_tv uForOpening uProgress uColor uTexture st =
     Some \<lparr>rgb = vec3_mix
                   (if 0 < alpha (uTexture st)
                    then (case rgb (uTexture st) of
                            (r, g, b) \<Rightarrow> (r / alpha (uTexture st), g / alpha (uTexture st),
                                         b / alpha (uTexture st)))
                    else rgb (uTexture st))
                   (vec3_scale uColor (alpha (uTexture st)))
                   (smoothstep 0 1 (progress uForOpening uProgress)),
           alpha = alpha (uTexture st) * mask_tv uForOpening uProgress st\<rparr>"
  by (simp add: main_tv_def to_straight_def vec3_div_def blend_def apply_mask_def Let_def
      split: prod.splits)

section \<open>The shader pool\<close>

lemma ident_setUniforms: "ident (setUniforms Cl act st fo x) = ident x"
  by (simp add: setUniforms_def set_uniform_float_def Let_def)

lemma u_uColor_setUniforms: "u_uColor (setUniforms Cl act st fo x) = u_uColor x"
  by (simp add: setUniforms_def set_uniform_float_def Let_def)

lemma getShader_empty:
  "freeShaders m = [] \<Longrightarrow> ShaderClass m = Registered \<Longrightarrow>
   getShader Cl act st fo m =
     Inr (setUniforms Cl act st fo (new_ShaderClass (created m)), m\<lparr>created := Suc (created m)\<rparr>)"
  by (simp add: getShader_def)

lemma getShader_pooled:
  "freeShaders m \<noteq> [] \<Longrightarrow>
   getShader Cl act st fo m =
     Inr (setUniforms Cl act st fo (last (freeShaders m)),
          m\<lparr>freeShaders := butlast (freeShaders m)\<rparr>)"
  by (simp add: getShader_def)

lemma getShader_returns:
  "ShaderClass m = Registered \<or> freeShaders m \<noteq> [] \<Longrightarrow>
   \<exists>x m1. getShader Cl act st fo m = Inr (x, m1)"
  by (cases "freeShaders m = []") (auto simp: getShader_def split: shader_class.splits)

lemma getShader_after_free:
  "getShader Cl act st fo (free x m) = Inr (setUniforms Cl act st fo x, m)"
  by (simp add: getShader_def free_def)

lemma getShader_ShaderClass:
  "getShader Cl act st fo m = Inr (x, m1) \<Longrightarrow> ShaderClass m1 = ShaderClass m"
  by (auto simp: getShader_def split: if_splits shader_class.splits)

lemma pool_inv_getShader:
  assumes "pool_inv m" and "getShader Cl act st fo m = Inr (x, m1)"
  shows "pool_inv m1"
    and "ident x < created m1"
    and "ident x \<notin> ident ` set (freeShaders m1)"
    and "u_uColor x = get_uniform_location ''uColor''"
proof -
  show "pool_inv m1"
  proof (cases "freeShaders m = []")
    case True
    with assms show ?thesis
      by (auto simp: getShader_def pool_inv_def split: shader_class.splits)
  next
    case False
    then have m1: "m1 = m\<lparr>freeShaders := butlast (freeShaders m)\<rparr>"
      using assms(2) by (simp add: getShader_pooled)
    from assms(1) have "distinct (map ident (butlast (freeShaders m)))"
      by (simp add: pool_inv_def distinct_butlast map_butlast)
    moreover from assms(1)
    have "list_all (\<lambda>s. ident s < created m \<and> u_uColor s = get_uniform_location ''uColor'')
            (butlast (freeShaders m))"
      by (auto simp: pool_inv_def list_all_iff dest: in_set_butlastD)
    ultimately show ?thesis
      by (simp add: m1 pool_inv_def)
  qed
next
  show "ident x < created m1"
  proof (cases "freeShaders m = []")
    case True
    with assms show ?thesis
      by (auto simp: getShader_def new_ShaderClass_def ident_setUniforms split: shader_class.splits)
  next
    case False
    then have "last (freeShaders m) \<in> set (freeShaders m)" by simp
    with assms(1) have "ident (last (freeShaders m)) < created m"
      by (simp add: pool_inv_def list_all_iff)
    with False assms(2) show ?thesis
      by (auto simp: getShader_pooled ident_setUniforms)
  qed
next
  show "ident x \<notin> ident ` set (freeShaders m1)"
  proof (cases "freeShaders m = []")
    case True
    with assms show ?thesis
      by (auto simp: getShader_def split: shader_class.splits)
  next
    case False
    then have fs: "freeShaders m = butlast (freeShaders m) @ [last (freeShaders m)]"
      by simp
    from assms(1) have "distinct (map ident (freeShaders m))"
      by (simp add: pool_inv_def)
    then have "distinct (map ident (butlast (freeShaders m)) @ [ident (last (freeShaders m))])"
      by (subst (asm) fs) simp
    then have "ident (last (freeShaders m)) \<notin> ident ` set (butlast (freeShaders m))"
      by simp
    with False assms(2) show ?thesis
      by (auto simp: getShader_pooled ident_setUniforms)
  qed
next
  show "u_uColor x = get_uniform_location ''uColor''"
  proof (cases "freeShaders m = []")
    case True
    with assms show ?thesis
      by (auto simp: getShader_def new_ShaderClass_def u_uColor_setUniforms
          split: shader_class.splits)
  next
    case False
    then have "last (freeShaders m) \<in> set (freeShaders m)" by simp
    with assms(1) have "u_uColor (last (freeShaders m)) = get_uniform_location ''uColor''"
      by (simp add: pool_inv_def list_all_iff)
    with False assms(2) show ?thesis
      by (auto simp: getShader_pooled u_uColor_setUniforms)
  qed
qed

lemma pool_inv_init: "pool_inv (module_init b)"
  by (simp add: pool_inv_def module_init_def)

lemma pool_inv_free:
  assumes "pool_inv m" and "ident x < created m" and "ident x \<notin> ident ` set (freeShaders m)"
    and "u_uColor x = get_uniform_location ''uColor''"
  shows "pool_inv (free x m)"
  using assms by (simp add: pool_inv_def free_def)

lemma pool_inv_cleanUp: "pool_inv (cleanUp m)"
  by (simp add: pool_inv_def cleanUp_def)

lemmas demo_defs =
  demo_clutter_def demo_settings_def demo_actor_def demo_used_def demo_module_def
  demo_fresh_def demo_calls_def

lemmas pool_defs =
  getShader_def free_def cleanUp_def setUniforms_def set_uniform_float_def new_ShaderClass_def
  get_uniform_location_def module_init_def pool_inv_def

text \<open>
  C4: from a well-formed pool, \<^verbatim>\<open>getShader(); free(x); getShader()\<close> returns the instance
  \<open>x\<close> again (the same identity, configured anew), and a second \<^verbatim>\<open>getShader()\<close> issued
  before any \<^verbatim>\<open>free\<close> returns an instance of another identity.
\<close>

theorem pool_round_trip:
  assumes "ShaderClass m = Registered" and "pool_inv m"
  shows "\<exists>x m1 y m2 z m3.
           getShader Cl act st fo m = Inr (x, m1) \<and>
           getShader Cl act' st' fo' (free x m1) = Inr (y, m2) \<and>
           ident y = ident x \<and> y = setUniforms Cl act' st' fo' x \<and> m2 = m1 \<and>
           getShader Cl act' st' fo' m1 = Inr (z, m3) \<and> ident z \<noteq> ident x"
proof -
  from assms(1) obtain x m1 where g1: "getShader Cl act st fo m = Inr (x, m1)"
    using getShader_returns by blast
  have g2: "getShader Cl act' st' fo' (free x m1) = Inr (setUniforms Cl act' st' fo' x, m1)"
    by (rule getShader_after_free)
  from g1 assms(1) have "ShaderClass m1 = Registered"
    by (simp add: getShader_ShaderClass)
  then obtain z m3 where g3: "getShader Cl act' st' fo' m1 = Inr (z, m3)"
    using getShader_returns by blast
  have inv1: "pool_inv m1" and fresh: "ident x \<notin> ident ` set (freeShaders m1)"
    and lt: "ident x < created m1"
    using pool_inv_getShader [OF assms(2) g1] by simp_all
  have "ident z \<noteq> ident x"
  proof (cases "freeShaders m1 = []")
    case True
    with g3 \<open>ShaderClass m1 = Registered\<close> lt show ?thesis
      by (auto simp: getShader_empty ident_setUniforms new_ShaderClass_def)
  next
    case False
    then have "last (freeShaders m1) \<in> set (freeShaders m1)" by simp
    with fresh have "ident (last (freeShaders m1)) \<noteq> ident x" by (metis imageI)
    with False g3 show ?thesis
      by (auto simp: getShader_pooled ident_setUniforms)
  qed
  with g1 g2 g3 show ?thesis
    by (simp add: ident_setUniforms)
qed

lemma getShader_fresh:
  assumes "getShader Cl act st fo m = Inr (x, m1)"
    and "n \<le> created m" and "list_all (\<lambda>s. n \<le> ident s) (freeShaders m)"
  shows "n \<le> ident x \<and> n \<le> created m1 \<and> list_all (\<lambda>s. n \<le> ident s) (freeShaders m1)"
proof (cases "freeShaders m = []")
  case True
  with assms show ?thesis
    by (auto simp: getShader_def new_ShaderClass_def ident_setUniforms split: shader_class.splits)
next
  case False
  then have "last (freeShaders m) \<in> set (freeShaders m)" by simp
  with assms(3) have "n \<le> ident (last (freeShaders m))"
    by (simp add: list_all_iff)
  moreover from assms(3) have "list_all (\<lambda>s. n \<le> ident s) (butlast (freeShaders m))"
    by (auto simp: list_all_iff dest: in_set_butlastD)
  ultimately show ?thesis
    using False assms(1,2) by (auto simp: getShader_pooled ident_setUniforms)
qed

lemma exec_fresh:
  "frees_held Cl calls m held \<Longrightarrow> exec Cl calls m = Inr (rets, m') \<Longrightarrow>
   n \<le> created m \<Longrightarrow> list_all (\<lambda>s. n \<le> ident s) (freeShaders m) \<Longrightarrow>
   list_all (\<lambda>i. n \<le> i) held \<Longrightarrow> list_all (\<lambda>r. n \<le> ident r) rets"
proof (induction calls arbitrary: m held rets)
  case Nil
  then show ?case by simp
next
  case (Cons c cs)
  show ?case
  proof (cases c)
    case (GetShader act st fo)
    from Cons.prems(2) GetShader obtain x m1 xs
      where g: "getShader Cl act st fo m = Inr (x, m1)"
        and e: "exec Cl cs m1 = Inr (xs, m')" and r: "rets = x # xs"
      by (auto split: sum.splits prod.splits)
    from getShader_fresh [OF g Cons.prems(3,4)]
    have x: "n \<le> ident x" and m1: "n \<le> created m1"
      and fs: "list_all (\<lambda>s. n \<le> ident s) (freeShaders m1)"
      by simp_all
    from Cons.prems(1) GetShader g have "frees_held Cl cs m1 (ident x # held)"
      by simp
    moreover from x Cons.prems(5) have "list_all (\<lambda>i. n \<le> i) (ident x # held)"
      by simp
    ultimately have "list_all (\<lambda>r. n \<le> ident r) xs"
      using Cons.IH e m1 fs by blast
    with x r show ?thesis by simp
  next
    case (Free x)
    from Cons.prems(1) Free have h: "ident x \<in> set held"
      and f: "frees_held Cl cs (free x m) (removeAll (ident x) held)"
      by simp_all
    from h Cons.prems(5) have x: "n \<le> ident x"
      by (simp add: list_all_iff)
    from Cons.prems(2) Free have e: "exec Cl cs (free x m) = Inr (rets, m')"
      by simp
    have "n \<le> created (free x m)"
      using Cons.prems(3) by (simp add: free_def)
    moreover have "list_all (\<lambda>s. n \<le> ident s) (freeShaders (free x m))"
      using Cons.prems(4) x by (simp add: free_def)
    moreover have "list_all (\<lambda>i. n \<le> i) (removeAll (ident x) held)"
      using Cons.prems(5) by (simp add: list_all_iff)
    ultimately show ?thesis
      using Cons.IH f e by blast
  qed
qed

lemma exec_returns:
  "ShaderClass m = Registered \<Longrightarrow> \<exists>rets m'. exec Cl calls m = Inr (rets, m')"
proof (induction calls arbitrary: m)
  case Nil
  then show ?case by simp
next
  case (Cons c cs)
  show ?case
  proof (cases c)
    case (GetShader act st fo)
    from Cons.prems obtain x m1 where g: "getShader Cl act st fo m = Inr (x, m1)"
      using getShader_returns by blast
    with Cons.prems have "ShaderClass m1 = Registered"
      by (simp add: getShader_ShaderClass)
    then obtain xs m2 where "exec Cl cs m1 = Inr (xs, m2)"
      using Cons.IH by blast
    with g GetShader show ?thesis by simp
  next
    case (Free x)
    from Cons.prems have "ShaderClass (free x m) = Registered"
      by (simp add: free_def)
    then show ?thesis
      using Cons.IH Free by simp
  qed
qed

theorem pool_round_trip_witness:
  "ShaderClass (module_init True) = Registered \<and> pool_inv (module_init True) \<and>
   (\<exists>x m1 y m2 z m3.
      getShader demo_clutter demo_actor demo_settings True (module_init True) = Inr (x, m1) \<and>
      getShader demo_clutter demo_actor demo_settings False (free x m1) = Inr (y, m2) \<and>
      ident y = ident x \<and> y = setUniforms demo_clutter demo_actor demo_settings False x \<and>
      m2 = m1 \<and>
      getShader demo_clutter demo_actor demo_settings False m1 = Inr (z, m3) \<and>
      ident z \<noteq> ident x) \<and>
   map_sum id (ident \<circ> fst)
     (getShader demo_clutter demo_actor demo_settings True (module_init True)) = Inr 0 \<and>
   map_sum id (ident \<circ> fst)
     (getShader demo_clutter demo_actor demo_settings False
        \<lparr>ShaderClass = Registered, freeShaders = [], created = 1\<rparr>) = Inr 1"
proof -
  have h1: "ShaderClass (module_init True) = Registered"
    by (simp add: module_init_def)
  have h2: "pool_inv (module_init True)"
    by (simp add: module_init_def pool_inv_def)
  show ?thesis
    using h1 h2
      pool_round_trip [OF h1 h2, of demo_clutter demo_actor demo_settings True
        demo_actor demo_settings False]
    by (simp add: pool_defs Let_def)
qed

text \<open>
  C8: after \<^verbatim>\<open>cleanUp\<close> the free list is empty and a second \<^verbatim>\<open>cleanUp\<close> changes nothing.
  If no instance is held when it runs, and the host goes on freeing only instances it
  holds, then every instance a later \<^verbatim>\<open>getShader\<close> returns was constructed after the
  teardown: it is none of the instances that existed before.
\<close>

theorem cleanUp_drains_pool:
  "freeShaders (cleanUp m) = [] \<and> cleanUp (cleanUp m) = cleanUp m \<and>
   (ShaderClass m = Registered \<longrightarrow> (\<exists>rets m'. exec Cl calls (cleanUp m) = Inr (rets, m'))) \<and>
   (pool_inv m \<and> frees_held Cl calls (cleanUp m) [] \<and> exec Cl calls (cleanUp m) = Inr (rets, m')
      \<longrightarrow> list_all (\<lambda>r. created m \<le> ident r \<and> ident r \<notin> ident ` set (freeShaders m)) rets)"
proof (intro conjI impI)
  show "freeShaders (cleanUp m) = []" and "cleanUp (cleanUp m) = cleanUp m"
    by (simp_all add: cleanUp_def)
next
  assume "ShaderClass m = Registered"
  then have "ShaderClass (cleanUp m) = Registered"
    by (simp add: cleanUp_def)
  then show "\<exists>rets m'. exec Cl calls (cleanUp m) = Inr (rets, m')"
    by (rule exec_returns)
next
  assume a: "pool_inv m \<and> frees_held Cl calls (cleanUp m) [] \<and>
    exec Cl calls (cleanUp m) = Inr (rets, m')"
  then have "list_all (\<lambda>r. created m \<le> ident r) rets"
    using exec_fresh [of Cl calls "cleanUp m" "[]" rets m' "created m"]
    by (simp add: cleanUp_def)
  moreover from a have "\<forall>s \<in> set (freeShaders m). ident s < created m"
    by (simp add: pool_inv_def list_all_iff)
  ultimately show "list_all (\<lambda>r. created m \<le> ident r \<and> ident r \<notin> ident ` set (freeShaders m)) rets"
    by (fastforce simp: list_all_iff)
qed

theorem cleanUp_drains_pool_witness:
  "ShaderClass demo_module = Registered \<and> pool_inv demo_module \<and>
   frees_held demo_clutter demo_calls (cleanUp demo_module) [] \<and>
   exec demo_clutter demo_calls (cleanUp demo_module) =
     Inr ([demo_fresh, demo_fresh], \<lparr>ShaderClass = Registered, freeShaders = [], created = 2\<rparr>) \<and>
   list_all (\<lambda>r. created demo_module \<le> ident r \<and> ident r \<notin> ident ` set (freeShaders demo_module))
     [demo_fresh, demo_fresh] \<and>
   ident demo_fresh = 1 \<and> map ident (freeShaders demo_module) = [0]"
  using cleanUp_drains_pool [of demo_module demo_clutter demo_calls "[demo_fresh, demo_fresh]"
      "\<lparr>ShaderClass = Registered, freeShaders = [], created = 2\<rparr>"]
  by (simp add: demo_defs pool_defs)

text \<open>
  C9: \<^verbatim>\<open>getShader\<close> returns whenever the class is registered or the pool is not empty,
  and the instance it returns carries, at its \<^verbatim>\<open>uColor\<close> location, the colour of the
  settings passed to this very call, whatever the instance held before. A frame drawn with
  the returned instance therefore runs the snippet with that colour.
\<close>

theorem getShader_configures:
  "(ShaderClass m = Registered \<or> freeShaders m \<noteq> [] \<longrightarrow>
      (\<exists>x m1. getShader Cl act st fo m = Inr (x, m1))) \<and>
   (getShader Cl act st fo m = Inr (x, m1) \<longrightarrow>
      (let c = snd (Color_from_string Cl (get_string st ''tv-effect-color''));
           r = real (unat (red c)) / 255; g = real (unat (green c)) / 255;
           b = real (unat (blue c)) / 255
       in uniforms x (u_uColor x) = Some [r, g, b] \<and>
          (pool_inv m \<longrightarrow>
             paint x uForOpening uProgress uTexture co =
               main_tv uForOpening uProgress (r, g, b) uTexture co)))"
proof (intro conjI impI)
  assume "ShaderClass m = Registered \<or> freeShaders m \<noteq> []"
  then show "\<exists>x m1. getShader Cl act st fo m = Inr (x, m1)"
    by (rule getShader_returns)
next
  assume g: "getShader Cl act st fo m = Inr (x, m1)"
  define c where "c = snd (Color_from_string Cl (get_string st ''tv-effect-color''))"
  define v where "v = [real (unat (red c)) / 255, real (unat (green c)) / 255,
    real (unat (blue c)) / 255]"
  have set: "uniforms (setUniforms Cl act st fo y) (u_uColor (setUniforms Cl act st fo y)) = Some v"
    for y
    by (simp add: setUniforms_def set_uniform_float_def Let_def c_def v_def)
  from g obtain y where x: "x = setUniforms Cl act st fo y"
    by (auto simp: getShader_def split: if_splits shader_class.splits)
  have u: "uniforms x (u_uColor x) = Some v"
    unfolding x by (rule set)
  have p: "paint x uForOpening uProgress uTexture co =
      main_tv uForOpening uProgress
        (real (unat (red c)) / 255, real (unat (green c)) / 255, real (unat (blue c)) / 255)
        uTexture co" if "pool_inv m"
  proof -
    from that g have "u_uColor x = get_uniform_location ''uColor''"
      by (rule pool_inv_getShader(4))
    with u show ?thesis
      by (simp add: paint_def uColor_of_def v_def)
  qed
  from u p show "let c = snd (Color_from_string Cl (get_string st ''tv-effect-color''));
           r = real (unat (red c)) / 255; g = real (unat (green c)) / 255;
           b = real (unat (blue c)) / 255
       in uniforms x (u_uColor x) = Some [r, g, b] \<and>
          (pool_inv m \<longrightarrow>
             paint x uForOpening uProgress uTexture co =
               main_tv uForOpening uProgress (r, g, b) uTexture co)"
    by (simp add: Let_def c_def v_def)
qed

theorem getShader_configures_witness:
  "(ShaderClass demo_module = Registered \<or> freeShaders demo_module \<noteq> []) \<and>
   getShader demo_clutter demo_actor demo_settings True demo_module =
     Inr (setUniforms demo_clutter demo_actor demo_settings True demo_used,
          \<lparr>ShaderClass = Registered, freeShaders = [], created = 1\<rparr>) \<and>
   pool_inv demo_module \<and>
   uniforms demo_used ''uColor'' = Some [0, 0, 1] \<and>
   uniforms (setUniforms demo_clutter demo_actor demo_settings True demo_used) ''uColor'' =
     Some [1, 0, 1/5] \<and>
   paint (setUniforms demo_clutter demo_actor demo_settings True demo_used) True 1
       demo_texture (1/2, 1/2) =
     main_tv True 1 (1, 0, 1/5) demo_texture (1/2, 1/2)"
  using getShader_configures [of demo_module demo_clutter demo_actor demo_settings True
      "setUniforms demo_clutter demo_actor demo_settings True demo_used"
      "\<lparr>ShaderClass = Registered, freeShaders = [], created = 1\<rparr>" True 1 demo_texture
      "(1/2, 1/2)"]
  by (simp add: demo_defs pool_defs)

text \<open>
  C10: when \<^verbatim>\<open>cleanUp\<close> runs while an instance \<open>x\<close> returned by \<^verbatim>\<open>getShader\<close> is still
  held, a later \<^verbatim>\<open>free(x)\<close> puts \<open>x\<close> on the fresh free list and the next \<^verbatim>\<open>getShader\<close>
  returns \<open>x\<close>, an instance from before the teardown. Such a sequence frees an instance
  that was not acquired after the teardown.
\<close>

theorem cleanUp_with_held_instance:
  "(ShaderClass m = Registered \<or> freeShaders m \<noteq> [] \<longrightarrow>
      (\<exists>x m1. getShader Cl act st fo m = Inr (x, m1))) \<and>
   (getShader Cl act st fo m = Inr (x, m1) \<longrightarrow>
      freeShaders (free x (cleanUp m1)) = [x] \<and>
      getShader Cl act' st' fo' (free x (cleanUp m1)) =
        Inr (setUniforms Cl act' st' fo' x, cleanUp m1) \<and>
      ident (setUniforms Cl act' st' fo' x) = ident x \<and>
      \<not> frees_held Cl [Free x, GetShader act' st' fo'] (cleanUp m1) [] \<and>
      (pool_inv m \<longrightarrow> ident x < created (cleanUp m1)))"
proof (intro conjI impI)
  assume "ShaderClass m = Registered \<or> freeShaders m \<noteq> []"
  then show "\<exists>x m1. getShader Cl act st fo m = Inr (x, m1)"
    by (rule getShader_returns)
next
  show "freeShaders (free x (cleanUp m1)) = [x]"
    by (simp add: free_def cleanUp_def)
  show "getShader Cl act' st' fo' (free x (cleanUp m1)) =
      Inr (setUniforms Cl act' st' fo' x, cleanUp m1)"
    by (rule getShader_after_free)
  show "ident (setUniforms Cl act' st' fo' x) = ident x"
    by (rule ident_setUniforms)
  show "\<not> frees_held Cl [Free x, GetShader act' st' fo'] (cleanUp m1) []"
    by simp
next
  assume "getShader Cl act st fo m = Inr (x, m1)" and "pool_inv m"
  then have "ident x < created m1"
    using pool_inv_getShader(2) by blast
  then show "ident x < created (cleanUp m1)"
    by (simp add: cleanUp_def)
qed

theorem cleanUp_with_held_instance_witness:
  "(ShaderClass demo_module = Registered \<or> freeShaders demo_module \<noteq> []) \<and>
   pool_inv demo_module \<and>
   getShader demo_clutter demo_actor demo_settings True demo_module =
     Inr (setUniforms demo_clutter demo_actor demo_settings True demo_used,
          \<lparr>ShaderClass = Registered, freeShaders = [], created = 1\<rparr>) \<and>
   getShader demo_clutter demo_actor demo_settings False
       (free (setUniforms demo_clutter demo_actor demo_settings True demo_used)
          (cleanUp \<lparr>ShaderClass = Registered, freeShaders = [], created = 1\<rparr>)) =
     Inr (setUniforms demo_clutter demo_actor demo_settings False
            (setUniforms demo_clutter demo_actor demo_settings True demo_used),
          cleanUp \<lparr>ShaderClass = Registered, freeShaders = [], created = 1\<rparr>) \<and>
   ident (setUniforms demo_clutter demo_actor demo_settings False
            (setUniforms demo_clutter demo_actor demo_settings True demo_used)) = 0 \<and>
   ident demo_used = 0"
  using cleanUp_with_held_instance [of demo_module demo_clutter demo_actor demo_settings True
      "setUniforms demo_clutter demo_actor demo_settings True demo_used"
      "\<lparr>ShaderClass = Registered, freeShaders = [], created = 1\<rparr>"
      demo_actor demo_settings False]
  by (simp add: demo_defs pool_defs)

section \<open>The Doom effect\<close>

lemmas doom_defs =
  begin_animation_def store_locations_def doom_set_uniform_float_def get_uniform_location_def

text \<open>
  C6: in the Doom effect's begin-animation handler, with actor height \<open>H\<close> and stage
  height \<open>S\<close>: in test mode \<^verbatim>\<open>uActorScale\<close> is set to 1 and \<^verbatim>\<open>uVerticalScale\<close> to 500,
  for every \<open>H\<close>, \<open>S\<close> and settings; otherwise \<^verbatim>\<open>uActorScale\<close> is set to
  \<^verbatim>\<open>2.0 * Math.max(1.0, S / H)\<close>, which is \<open>2 * max 1 (S / H)\<close> when \<open>H\<close> is not zero.
\<close>

theorem begin_animation_scale:
  "(get_boolean settings ''test-mode'' \<longrightarrow>
      doom_uniforms (begin_animation global_stage (store_locations sh) settings forOpening act)
        (get_uniform_location ''uActorScale'') = Some [Fin 1.0] \<and>
      doom_uniforms (begin_animation global_stage (store_locations sh) settings forOpening act)
        (get_uniform_location ''uVerticalScale'') = Some [Fin 500.0]) \<and>
   (\<not> get_boolean settings ''test-mode'' \<longrightarrow>
      doom_uniforms (begin_animation global_stage (store_locations sh) settings forOpening act)
        (get_uniform_location ''uActorScale'') =
      Some [js_mul (Fin 2) (Math_max (Fin 1) (js_div (stage_height global_stage) (height act)))]) \<and>
   (\<not> get_boolean settings ''test-mode'' \<and> height act \<noteq> 0 \<longrightarrow>
      doom_uniforms (begin_animation global_stage (store_locations sh) settings forOpening act)
        (get_uniform_location ''uActorScale'') =
      Some [Fin (2 * max 1 (stage_height global_stage / height act))])"
  by (simp add: doom_defs js_div_def Let_def)

theorem begin_animation_scale_witness:
  "get_boolean demo_test_settings ''test-mode'' \<and>
   doom_uniforms (begin_animation demo_stage demo_doom_shader demo_test_settings True demo_actor)
     ''uActorScale'' = Some [Fin 1] \<and>
   doom_uniforms (begin_animation demo_stage demo_doom_shader demo_test_settings True demo_actor)
     ''uVerticalScale'' = Some [Fin 500] \<and>
   \<not> get_boolean demo_settings ''test-mode'' \<and> height demo_actor \<noteq> 0 \<and>
   doom_uniforms (begin_animation demo_stage demo_doom_shader demo_settings True demo_actor)
     ''uActorScale'' = Some [Fin (27 / 5)]"
  using begin_animation_scale [of demo_test_settings demo_stage
      "\<lparr>u_uActorScale = [], u_uHorizontalScale = [], u_uVerticalScale = [],
        u_uPixelSize = [], doom_uniforms = Map.empty\<rparr>" True demo_actor]
    begin_animation_scale [of demo_settings demo_stage
      "\<lparr>u_uActorScale = [], u_uHorizontalScale = [], u_uVerticalScale = [],
        u_uPixelSize = [], doom_uniforms = Map.empty\<rparr>" True demo_actor]
  by (simp add: demo_defs demo_stage_def demo_test_settings_def demo_doom_shader_def
      get_uniform_location_def js_div_def)

end
